theory Spec2Isabelle
  imports Main "HOL-Library.Word"
begin

section \<open>Legalization of TF quantized types (legalize\_tf\_types.cc)\<close>

text \<open>
  The MLIR types the pass looks at. The five quantized element types of the TF dialect
  are constructors of their own; a builtin integer type carries its width and its
  signedness semantics; every type that implements the \<open>ShapedType\<close> interface
  (ranked and unranked tensors, vectors, memrefs) carries its kind, its shape and its
  element type; every other type is opaque.
\<close>

datatype SignednessSemantics = Signless | Signed | Unsigned

datatype ShapedKind = RankedTensor | UnrankedTensor | Vector | MemRef | UnrankedMemRef

datatype Type =
    Qint8Type
  | Qint16Type
  | Qint32Type
  | Quint8Type
  | Quint16Type
  | IntegerType nat SignednessSemantics
  | ShapedType ShapedKind "int list" Type
  | OtherType nat

text \<open>\<open>type.isa<Qint8Type, Qint16Type, Qint32Type, Quint8Type, Quint16Type>()\<close>.\<close>

fun IsIllegalElementType :: "Type \<Rightarrow> bool" where
  "IsIllegalElementType Qint8Type = True"
| "IsIllegalElementType Qint16Type = True"
| "IsIllegalElementType Qint32Type = True"
| "IsIllegalElementType Quint8Type = True"
| "IsIllegalElementType Quint16Type = True"
| "IsIllegalElementType _ = False"

text \<open>
  The \<open>TypeSwitch\<close> of \<open>ToLegalElementType\<close>: \<open>IntegerType::get(ctx, 8)\<close> builds a
  signless integer (the default signedness), the two \<open>Quint\<close> cases ask for
  \<open>Unsigned\<close>, and the default case returns the type unchanged.
\<close>

fun ToLegalElementType :: "Type \<Rightarrow> Type" where
  "ToLegalElementType Qint8Type = IntegerType 8 Signless"
| "ToLegalElementType Qint16Type = IntegerType 16 Signless"
| "ToLegalElementType Qint32Type = IntegerType 32 Signless"
| "ToLegalElementType Quint8Type = IntegerType 8 Unsigned"
| "ToLegalElementType Quint16Type = IntegerType 16 Unsigned"
| "ToLegalElementType t = t"

text \<open>
  \<open>mlir::getElementTypeOrSelf\<close>: the element type of a shaped type, the type itself
  otherwise (one level only).
\<close>

fun getElementTypeOrSelf :: "Type \<Rightarrow> Type" where
  "getElementTypeOrSelf (ShapedType k shape elem) = elem"
| "getElementTypeOrSelf t = t"

definition IsIllegalType :: "Type \<Rightarrow> bool" where
  "IsIllegalType t = IsIllegalElementType (getElementTypeOrSelf t)"

text \<open>
  \<open>ToLegalType\<close>: an illegal element type is converted; a shaped type whose element
  type is illegal (in the sense of \<open>IsIllegalType\<close>) is cloned with the converted
  element type, \<open>shaped.clone\<close> keeping kind and shape; anything else is returned as
  it is.
\<close>

fun ToLegalType :: "Type \<Rightarrow> Type" where
  "ToLegalType (ShapedType k shape elem) =
     (if IsIllegalElementType (ShapedType k shape elem)
      then ToLegalElementType (ShapedType k shape elem)
      else if IsIllegalType elem then ShapedType k shape (ToLegalType elem)
      else ShapedType k shape elem)"
| "ToLegalType t = (if IsIllegalElementType t then ToLegalElementType t else t)"

section \<open>CUDA graphs (cuda\_graph.cc): the runtime, statuses and logging\<close>

text \<open>
  The CUDA runtime is outside the repository. An error code is \<open>cudaSuccess\<close>, the
  allocation failure \<open>cudaErrorMemoryAllocation\<close>, or any other code. What the runtime
  answers to a call is an argument of the function that makes the call, and every call
  that is made is appended to the log \<open>calls\<close> of the state.
\<close>

datatype cudaError_t = cudaSuccess | cudaErrorMemoryAllocation | cudaErrorOther nat

datatype cudaGraphExecUpdateResult =
  cudaGraphExecUpdateSuccess | cudaGraphExecUpdateError nat

datatype cudaStreamCaptureStatus =
  cudaStreamCaptureStatusNone | cudaStreamCaptureStatusActive
  | cudaStreamCaptureStatusInvalidated

text \<open>Native handles are pointers; \<open>0\<close> is the null pointer.\<close>

type_synonym cudaGraph_t = nat
type_synonym cudaGraphExec_t = nat
type_synonym cudaStream_t = nat

datatype native_call =
    StreamBeginCapture cudaStream_t
  | CaptureCallback
  | StreamEndCapture cudaStream_t
  | StreamIsCapturing cudaStream_t
  | GraphInstantiate cudaGraph_t
  | GetLastError
  | GraphExecUpdate cudaGraphExec_t cudaGraph_t
  | GraphLaunch cudaGraphExec_t cudaStream_t
  | GraphDestroy cudaGraph_t
  | GraphExecDestroy cudaGraphExec_t

text \<open>\<open>absl::Status\<close>: a code and a message.\<close>

datatype StatusCode =
    kOk | kCancelled | kUnknown | kInvalidArgument | kDeadlineExceeded | kNotFound
  | kAlreadyExists | kPermissionDenied | kResourceExhausted | kFailedPrecondition
  | kAborted | kOutOfRange | kUnimplemented | kInternal | kUnavailable | kDataLoss
  | kUnauthenticated

datatype Status = Status (code: StatusCode) (message: string)

definition OkStatus :: Status where
  "OkStatus = Status kOk []"

definition ok :: "Status \<Rightarrow> bool" where
  "ok st = (code st = kOk)"

definition InternalError :: "string \<Rightarrow> Status" where
  "InternalError msg = Status kInternal msg"

definition ResourceExhaustedError :: "string \<Rightarrow> Status" where
  "ResourceExhaustedError msg = Status kResourceExhausted msg"

text \<open>
  The state of the process as far as cuda\_graph.cc reads or writes it:
  \<^item> \<open>vlog_level\<close>: the verbosity of the logging of this file, read by \<open>VLOG\<close>;
  \<^item> \<open>CUDA_VERSION\<close>: the version the file is compiled against;
  \<^item> \<open>cudaGetErrorString\<close>: the runtime's text for an error code;
  \<^item> \<open>capture_status\<close>: the capture status the runtime keeps for each stream;
  \<^item> the two static counters of \<open>CudaGraphSupport\<close>, of type
    \<open>std::atomic<size_t>\<close> (64 bits; arithmetic wraps around);
  \<^item> \<open>calls\<close>: the native calls made so far, oldest first.
\<close>

record world =
  vlog_level :: nat
  CUDA_VERSION :: nat
  cudaGetErrorString :: "cudaError_t \<Rightarrow> string"
  capture_status :: "cudaStream_t \<Rightarrow> cudaStreamCaptureStatus"
  allocated_cuda_graph_execs :: "64 word"
  alive_cuda_graph_execs :: "64 word"
  calls :: "native_call list"

definition native :: "native_call \<Rightarrow> world \<Rightarrow> world" where
  "native c w = w\<lparr>calls := calls w @ [c]\<rparr>"

text \<open>
  \<open>VLOG(n) << a << b\<close> expands to a conditional on \<open>VLOG_IS_ON(n)\<close>: the operands
  streamed into it are evaluated only when the verbosity of the file is at least
  \<open>n\<close>. An operand with a side effect (\<open>++num_launches_\<close>, \<open>num_updates_++\<close>,
  \<open>NotifyGraphExecDestroyed()\<close>) therefore takes effect only then.
\<close>

definition VLOG_IS_ON :: "nat \<Rightarrow> world \<Rightarrow> bool" where
  "VLOG_IS_ON n w = (n \<le> vlog_level w)"

section \<open>The registry of executable graphs (CudaGraphSupport)\<close>

text \<open>
  The atomic operations on the two static counters. \<open>fetch_add(1)\<close> and
  \<open>fetch_sub(1)\<close> are single indivisible read-modify-write steps that return the
  value read.
\<close>

definition fetch_add_alive :: "world \<Rightarrow> 64 word \<times> world" where
  "fetch_add_alive w =
     (alive_cuda_graph_execs w, w\<lparr>alive_cuda_graph_execs := alive_cuda_graph_execs w + 1\<rparr>)"

definition fetch_add_allocated :: "world \<Rightarrow> 64 word \<times> world" where
  "fetch_add_allocated w =
     (allocated_cuda_graph_execs w,
      w\<lparr>allocated_cuda_graph_execs := allocated_cuda_graph_execs w + 1\<rparr>)"

definition fetch_sub_alive :: "world \<Rightarrow> 64 word \<times> world" where
  "fetch_sub_alive w =
     (alive_cuda_graph_execs w, w\<lparr>alive_cuda_graph_execs := alive_cuda_graph_execs w - 1\<rparr>)"

text \<open>
  \<open>NotifyGraphExecCreated\<close>, run by one caller without interference: \<open>alive\<close> is
  bumped first, the value returned is the one \<open>fetch_add\<close> read from \<open>allocated\<close>.
\<close>

definition NotifyGraphExecCreated :: "world \<Rightarrow> 64 word \<times> world" where
  "NotifyGraphExecCreated w =
     (let w1 = snd (fetch_add_alive w)
      in fetch_add_allocated w1)"

text \<open>\<open>NotifyGraphExecDestroyed\<close>: \<open>fetch_sub(1) - 1\<close>, the value after the subtraction.\<close>

definition NotifyGraphExecDestroyed :: "world \<Rightarrow> 64 word \<times> world" where
  "NotifyGraphExecDestroyed w =
     (fst (fetch_sub_alive w) - 1, snd (fetch_sub_alive w))"

section \<open>Owning handles and their release\<close>

text \<open>
  A failed \<open>CHECK\<close> logs its message and aborts the process: the result
  \<open>Inl (CheckFailed msg)\<close>, with the text streamed into the \<open>CHECK\<close>.
\<close>

datatype abort = CheckFailed string

text \<open>
  The deleters of the two handles. The answer of \<open>cudaGraphDestroy\<close> and of
  \<open>cudaGraphExecDestroy\<close> is the argument \<open>err\<close>.
\<close>

definition DestroyGraph :: "cudaGraph_t \<Rightarrow> cudaError_t \<Rightarrow> world \<Rightarrow> abort + world" where
  "DestroyGraph graph err w =
     (let w1 = native (GraphDestroy graph) w
      in if err = cudaSuccess then Inr w1
         else Inl (CheckFailed (''Failed to destroy CUDA graph: '' @ cudaGetErrorString w1 err)))"

definition DestroyGraphExec :: "cudaGraphExec_t \<Rightarrow> cudaError_t \<Rightarrow> world \<Rightarrow> abort + world" where
  "DestroyGraphExec instance err w =
     (let w1 = native (GraphExecDestroy instance) w
      in if err = cudaSuccess then Inr w1
         else Inl (CheckFailed
           (''Failed to destroy CUDA graph instance: '' @ cudaGetErrorString w1 err)))"

text \<open>
  Modelled from the spec: the classes \<open>OwnedCudaGraph\<close> and \<open>OwnedCudaGraphExec\<close> are
  declared in cuda\_graph.h, which is not among the sources. Following the spec (Data
  Model), a Graph Handle is a move-only wrapper that owns one native graph or is empty
  (moved-from, the null pointer); an Executable Handle owns one native executable or is
  empty, and carries an identity, an update counter and a launch counter, both counters
  0 in a fresh handle. Destroying a non-empty handle runs the release action on its
  resource, destroying an empty one releases nothing. The counters are 64-bit unsigned.
\<close>

datatype OwnedCudaGraph = OwnedCudaGraph (graph_get: cudaGraph_t)

record OwnedCudaGraphExec =
  exec_get :: cudaGraphExec_t
  exec_id :: "64 word"
  num_updates :: "64 word"
  num_launches :: "64 word"

definition new_OwnedCudaGraphExec :: "64 word \<Rightarrow> cudaGraphExec_t \<Rightarrow> OwnedCudaGraphExec" where
  "new_OwnedCudaGraphExec i exec =
     \<lparr>exec_get = exec, exec_id = i, num_updates = 0, num_launches = 0\<rparr>"

text \<open>Moving out of a handle leaves the null pointer behind.\<close>

definition moved_from_graph :: OwnedCudaGraph where
  "moved_from_graph = OwnedCudaGraph 0"

definition moved_from_exec :: "OwnedCudaGraphExec \<Rightarrow> OwnedCudaGraphExec" where
  "moved_from_exec e = e\<lparr>exec_get := 0\<rparr>"

definition destroy_OwnedCudaGraph ::
  "OwnedCudaGraph \<Rightarrow> cudaError_t \<Rightarrow> world \<Rightarrow> abort + world" where
  "destroy_OwnedCudaGraph g err w =
     (if graph_get g = 0 then Inr w else DestroyGraph (graph_get g) err w)"

text \<open>
  \<open>~OwnedCudaGraphExec\<close>: the body of the destructor first, then the release of the
  base class. In the body, \<open>NotifyGraphExecDestroyed()\<close> is an operand of the
  \<open>VLOG(5)\<close> statement guarded by the test that the handle is not empty.
\<close>

definition destroy_OwnedCudaGraphExec ::
  "OwnedCudaGraphExec \<Rightarrow> cudaError_t \<Rightarrow> world \<Rightarrow> abort + world" where
  "destroy_OwnedCudaGraphExec e err w =
     (let w1 = (if exec_get e = 0 then w
                else if VLOG_IS_ON 5 w then snd (NotifyGraphExecDestroyed w)
                else w)
      in if exec_get e = 0 then Inr w1 else DestroyGraphExec (exec_get e) err w1)"

section \<open>Update and launch of an executable graph\<close>

text \<open>
  A function that takes an \<open>OwnedCudaGraph\<close> by value owns it for the call: when the
  function returns, whatever it returns, the argument is destroyed, which releases the
  graph unless the handle is empty and aborts the process when the release fails. The
  answer of that \<open>cudaGraphDestroy\<close> is \<open>destroy_err\<close>.
\<close>

definition at_return ::
  "OwnedCudaGraph \<Rightarrow> cudaError_t \<Rightarrow> 'a \<times> world \<Rightarrow> abort + 'a \<times> world" where
  "at_return graph destroy_err r =
     (case destroy_OwnedCudaGraph graph destroy_err (snd r) of
        Inl a \<Rightarrow> Inl a
      | Inr w \<Rightarrow> Inr (fst r, w))"

text \<open>
  \<open>OwnedCudaGraphExec::Update\<close>. \<open>num_updates_++\<close> is an operand of the \<open>VLOG(3)\<close>
  statement; \<open>num_launches_ = 0\<close> is a statement of its own, before the native call.
  The answer of \<open>cudaGraphExecUpdate\<close> is \<open>err\<close> with the update result \<open>updated\<close>.
  The graph is taken by value and only read, so it is destroyed at the return. The
  result is an abort, or the status with the handle after the call and the state after
  the call.
\<close>

definition Update ::
  "OwnedCudaGraphExec \<Rightarrow> OwnedCudaGraph \<Rightarrow> cudaError_t \<Rightarrow> cudaGraphExecUpdateResult \<Rightarrow>
   cudaError_t \<Rightarrow> world \<Rightarrow> abort + (Status \<times> OwnedCudaGraphExec) \<times> world" where
  "Update e graph err updated destroy_err w =
     (let e1 = (if VLOG_IS_ON 3 w then e\<lparr>num_updates := num_updates e + 1\<rparr> else e);
          e2 = e1\<lparr>num_launches := 0\<rparr>;
          w1 = native (GraphExecUpdate (exec_get e2) (graph_get graph)) w
      in if 12000 \<le> CUDA_VERSION w then
           (if err \<noteq> cudaSuccess \<or> updated \<noteq> cudaGraphExecUpdateSuccess
            then at_return graph destroy_err
                   ((InternalError (''failed to update cuda graph: '' @ cudaGetErrorString w1 err),
                     e2), w1)
            else at_return graph destroy_err ((OkStatus, e2), w1))
         else
           (if err \<noteq> cudaSuccess \<or> updated \<noteq> cudaGraphExecUpdateSuccess
            then at_return graph destroy_err
                   ((InternalError (''Failed to update cuda graph '' @ cudaGetErrorString w1 err),
                     e2), w1)
            else at_return graph destroy_err ((OkStatus, e2), w1)))"

text \<open>
  \<open>OwnedCudaGraphExec::Launch\<close>. \<open>++num_launches_\<close> is an operand of the \<open>VLOG(3)\<close>
  statement, which comes before the native call. The answer of \<open>cudaGraphLaunch\<close> is
  \<open>err\<close>.
\<close>

definition Launch ::
  "OwnedCudaGraphExec \<Rightarrow> cudaStream_t \<Rightarrow> cudaError_t \<Rightarrow> world \<Rightarrow>
   Status \<times> OwnedCudaGraphExec \<times> world" where
  "Launch e stream err w =
     (let e1 = (if VLOG_IS_ON 3 w then e\<lparr>num_launches := num_launches e + 1\<rparr> else e);
          w1 = native (GraphLaunch (exec_get e1) stream) w
      in if err \<noteq> cudaSuccess
         then (InternalError (''failed to run cuda graph: '' @ cudaGetErrorString w1 err), e1, w1)
         else (OkStatus, e1, w1))"

section \<open>Capture, instantiation and the capture query\<close>

text \<open>
  What the runtime does to the capture status of a stream. A successful
  \<open>cudaStreamBeginCapture\<close> makes the stream \<open>Active\<close> and a failed one changes
  nothing; a successful \<open>cudaStreamEndCapture\<close> returns it to \<open>None\<close>; after a failed
  \<open>cudaStreamEndCapture\<close> the status is whatever the runtime left, the argument
  \<open>left\<close>.
\<close>

definition begin_capture :: "cudaStream_t \<Rightarrow> cudaError_t \<Rightarrow> world \<Rightarrow> world" where
  "begin_capture s err w =
     (let w1 = native (StreamBeginCapture s) w
      in if err = cudaSuccess
         then w1\<lparr>capture_status := (capture_status w1)(s := cudaStreamCaptureStatusActive)\<rparr>
         else w1)"

definition end_capture ::
  "cudaStream_t \<Rightarrow> cudaError_t \<Rightarrow> cudaStreamCaptureStatus \<Rightarrow> world \<Rightarrow> world" where
  "end_capture s err left w =
     (let w1 = native (StreamEndCapture s) w
      in if err = cudaSuccess
         then w1\<lparr>capture_status := (capture_status w1)(s := cudaStreamCaptureStatusNone)\<rparr>
         else w1\<lparr>capture_status := (capture_status w1)(s := left)\<rparr>)"

text \<open>
  \<open>CaptureCudaGraph\<close>. The answers of the environment: \<open>begin_err\<close> of
  \<open>cudaStreamBeginCapture\<close>; \<open>captured\<close>, the status the capture callback returns
  (what the callback enqueues on the stream is outside the model); \<open>end_err\<close> of
  \<open>cudaStreamEndCapture\<close>, with the graph it writes and the status it leaves on
  failure. The dump of the graph to a debug file under \<open>VLOG_IS_ON(100)\<close> only writes
  files and log lines and is left out.
\<close>

definition CaptureCudaGraph ::
  "cudaStream_t \<Rightarrow> cudaError_t \<Rightarrow> Status \<Rightarrow> cudaError_t \<Rightarrow> cudaGraph_t \<Rightarrow>
   cudaStreamCaptureStatus \<Rightarrow> world \<Rightarrow> (Status + OwnedCudaGraph) \<times> world" where
  "CaptureCudaGraph stream begin_err captured end_err graph left w =
     (let w1 = begin_capture stream begin_err w
      in if begin_err \<noteq> cudaSuccess
         then (Inl (InternalError
                 (''stream begin capture failed: '' @ cudaGetErrorString w1 begin_err)), w1)
         else
           let w2 = native CaptureCallback w1;
               w3 = end_capture stream end_err left w2
           in if end_err \<noteq> cudaSuccess
              then (Inl (InternalError
                      (''stream end capture failed: '' @ cudaGetErrorString w3 end_err)), w3)
              else if \<not> ok captured
              then (Inl (InternalError
                      (''failed to capture CUDA graph: '' @ message captured)), w3)
              else (Inr (OwnedCudaGraph graph), w3))"

text \<open>
  \<open>InstantiateCudaGraph\<close>. The answer of \<open>cudaGraphInstantiate\<close> is \<open>err\<close> with the
  executable \<open>exec\<close> it writes; \<open>last_err\<close> is the answer of \<open>cudaGetLastError\<close>,
  asked for on the allocation failure only. The graph is taken by value and only read,
  so it is destroyed at the return, on every path.
\<close>

definition InstantiateCudaGraph ::
  "OwnedCudaGraph \<Rightarrow> cudaError_t \<Rightarrow> cudaGraphExec_t \<Rightarrow> cudaError_t \<Rightarrow> cudaError_t \<Rightarrow> world \<Rightarrow>
   abort + (Status + OwnedCudaGraphExec) \<times> world" where
  "InstantiateCudaGraph graph err exec last_err destroy_err w =
     (let w1 = native (GraphInstantiate (graph_get graph)) w
      in if err \<noteq> cudaSuccess then
           (if err = cudaErrorMemoryAllocation
            then let w2 = native GetLastError w1
                 in at_return graph destroy_err
                      (Inl (ResourceExhaustedError
                         (''graph instantiation failed: '' @ cudaGetErrorString w2 last_err)), w2)
            else at_return graph destroy_err
                   (Inl (InternalError
                      (''graph instantiation failed: '' @ cudaGetErrorString w1 err)), w1))
         else
           let (i, w2) = NotifyGraphExecCreated w1
           in at_return graph destroy_err (Inr (new_OwnedCudaGraphExec i exec), w2))"

text \<open>
  \<open>IsStreamCapturing\<close>: the answer of \<open>cudaStreamIsCapturing\<close> is \<open>err\<close> with the
  status the runtime keeps for the stream.
\<close>

definition IsStreamCapturing :: "cudaStream_t \<Rightarrow> cudaError_t \<Rightarrow> world \<Rightarrow> (Status + bool) \<times> world" where
  "IsStreamCapturing stream err w =
     (let w1 = native (StreamIsCapturing stream) w
      in if err \<noteq> cudaSuccess
         then (Inl (InternalError
                 (''Failed to get stream's capture status: '' @ cudaGetErrorString w1 err)), w1)
         else (Inr (capture_status w1 stream = cudaStreamCaptureStatusActive), w1))"

text \<open>
  A process at its start, for concrete runs: both counters 0, no stream capturing, no
  call made; the verbosity is the argument.
\<close>

definition error_text :: "cudaError_t \<Rightarrow> string" where
  "error_text err =
     (case err of cudaSuccess \<Rightarrow> ''no error''
      | cudaErrorMemoryAllocation \<Rightarrow> ''out of memory''
      | cudaErrorOther n \<Rightarrow> ''unknown error'')"

definition start :: "nat \<Rightarrow> world" where
  "start v =
     \<lparr>vlog_level = v, CUDA_VERSION = 12000, cudaGetErrorString = error_text,
      capture_status = (\<lambda>s. cudaStreamCaptureStatusNone),
      allocated_cuda_graph_execs = 0, alive_cuda_graph_execs = 0, calls = []\<rparr>"

section \<open>Runs of several calls\<close>

text \<open>
  A caller that launches one handle on one stream again and again, whatever each launch
  returns; \<open>errs\<close> lists the answers of \<open>cudaGraphLaunch\<close>, one for each launch.
\<close>

fun Launches ::
  "OwnedCudaGraphExec \<Rightarrow> cudaStream_t \<Rightarrow> cudaError_t list \<Rightarrow> world \<Rightarrow>
   OwnedCudaGraphExec \<times> world" where
  "Launches e stream [] w = (e, w)"
| "Launches e stream (err # errs) w =
     (case Launch e stream err w of (st, e1, w1) \<Rightarrow> Launches e1 stream errs w1)"

text \<open>The identities that \<open>n\<close> calls of \<open>NotifyGraphExecCreated\<close> in a row return.\<close>

fun created_ids :: "nat \<Rightarrow> world \<Rightarrow> 64 word list" where
  "created_ids 0 w = []"
| "created_ids (Suc n) w =
     (case NotifyGraphExecCreated w of (i, w1) \<Rightarrow> i # created_ids n w1)"

section \<open>Concurrent callers of the registry\<close>

text \<open>
  Several threads call the registry at once. A call of \<open>NotifyGraphExecCreated\<close> is
  two atomic operations, a call of \<open>NotifyGraphExecDestroyed\<close> is one; the atomic
  operations of different threads interleave in any order, those of one thread run in
  program order. A configuration holds the shared state, the atomic operations each
  thread has still to run, and the history: the thread, the operation and the value
  read, for every operation run so far. A schedule names the thread that moves next.
  Each property proved below is about one counter at a time, and the read-modify-write
  operations on one atomic object are totally ordered whatever the memory order asked
  for.
\<close>

datatype atomic_op = FetchAddAlive | FetchAddAllocated | FetchSubAlive

datatype notify = Created | Destroyed

fun ops_of_call :: "notify \<Rightarrow> atomic_op list" where
  "ops_of_call Created = [FetchAddAlive, FetchAddAllocated]"
| "ops_of_call Destroyed = [FetchSubAlive]"

definition ops_of :: "notify list \<Rightarrow> atomic_op list" where
  "ops_of cs = concat (map ops_of_call cs)"

record conc =
  shared :: world
  pending :: "nat \<Rightarrow> atomic_op list"
  history :: "(nat \<times> atomic_op \<times> 64 word) list"

definition atomic :: "atomic_op \<Rightarrow> world \<Rightarrow> 64 word \<times> world" where
  "atomic op w =
     (case op of FetchAddAlive \<Rightarrow> fetch_add_alive w
      | FetchAddAllocated \<Rightarrow> fetch_add_allocated w
      | FetchSubAlive \<Rightarrow> fetch_sub_alive w)"

definition step :: "nat \<Rightarrow> conc \<Rightarrow> conc" where
  "step t c =
     (case pending c t of
        [] \<Rightarrow> c
      | op # rest \<Rightarrow>
          c\<lparr>shared := snd (atomic op (shared c)),
            pending := (pending c)(t := rest),
            history := history c @ [(t, op, fst (atomic op (shared c)))]\<rparr>)"

fun run :: "nat list \<Rightarrow> conc \<Rightarrow> conc" where
  "run [] c = c"
| "run (t # ts) c = run ts (step t c)"

text \<open>
  How many times an operation has run; the identities handed out so far (the values the
  \<open>fetch_add\<close> on \<open>allocated\<close> returned), in the order they were handed out; and
  those handed to one thread.
\<close>

definition executed :: "atomic_op \<Rightarrow> conc \<Rightarrow> nat" where
  "executed op c = length (filter (\<lambda>h. fst (snd h) = op) (history c))"

definition ids :: "conc \<Rightarrow> 64 word list" where
  "ids c = map (\<lambda>h. snd (snd h)) (filter (\<lambda>h. fst (snd h) = FetchAddAllocated) (history c))"

definition ids_of :: "nat \<Rightarrow> conc \<Rightarrow> 64 word list" where
  "ids_of t c =
     map (\<lambda>h. snd (snd h))
       (filter (\<lambda>h. fst h = t) (filter (\<lambda>h. fst (snd h) = FetchAddAllocated) (history c)))"

text \<open>
  No update of a counter is lost, and the identities handed out are the successive
  values of \<open>allocated\<close>, counted from the values \<open>a0\<close> and \<open>l0\<close> the counters had
  when the history was empty.
\<close>

definition no_lost_update :: "64 word \<Rightarrow> 64 word \<Rightarrow> conc \<Rightarrow> bool" where
  "no_lost_update a0 l0 c =
     (allocated_cuda_graph_execs (shared c) = a0 + of_nat (executed FetchAddAllocated c) \<and>
      alive_cuda_graph_execs (shared c) =
        l0 + of_nat (executed FetchAddAlive c) - of_nat (executed FetchSubAlive c) \<and>
      ids c = map (\<lambda>k. a0 + of_nat k) [0..<executed FetchAddAllocated c])"

text \<open>Two threads, each creating and then destroying one executable, for concrete runs.\<close>

definition two_callers :: conc where
  "two_callers =
     \<lparr>shared = start 0, pending = (\<lambda>t. if t < 2 then ops_of [Created, Destroyed] else []),
      history = []\<rparr>"

text \<open>
  A schedule for them: each thread is between its two increments when the other one
  moves.
\<close>

definition interleaved :: "nat list" where
  "interleaved = [0, 1, 1, 0, 1, 0]"

section \<open>Properties of the type legalization\<close>

lemma IsIllegalElementType_ToLegalElementType:
  "\<not> IsIllegalElementType (ToLegalElementType t)"
  by (cases t) simp_all

lemma ToLegalType_shaped:
  "ToLegalType (ShapedType k shape elem) =
     ShapedType k shape (if IsIllegalType elem then ToLegalType elem else elem)"
  by simp

lemma ToLegalType_not_illegal_element: "\<not> IsIllegalElementType (ToLegalType t)"
  by (cases t) simp_all

lemma IsIllegalType_ToLegalType: "\<not> IsIllegalType (ToLegalType t)"
proof (cases t)
  case (ShapedType k shape elem)
  show ?thesis
  proof (cases "IsIllegalType elem")
    case True
    then show ?thesis
      using ShapedType ToLegalType_not_illegal_element [of elem]
      by (simp add: IsIllegalType_def)
  next
    case False
    then have "\<not> IsIllegalElementType elem"
      by (cases elem) (simp_all add: IsIllegalType_def)
    with False show ?thesis
      using ShapedType by (simp add: IsIllegalType_def)
  qed
qed (simp_all add: IsIllegalType_def)

lemma ToLegalType_idem: "ToLegalType (ToLegalType t) = ToLegalType t"
proof (cases t)
  case (ShapedType k shape elem)
  then show ?thesis
    using IsIllegalType_ToLegalType [of elem] by simp
qed simp_all

text \<open>
  C10, as amended. \<open>ToLegalType\<close> maps the signed quantized element types \<open>Qint8\<close>,
  \<open>Qint16\<close>, \<open>Qint32\<close> to the signless builtin integers \<open>i8\<close>, \<open>i16\<close>, \<open>i32\<close> of
  the same width, and the unsigned \<open>Quint8\<close>, \<open>Quint16\<close> to the unsigned builtin
  integers \<open>ui8\<close>, \<open>ui16\<close>. A shaped type is illegal exactly when its element type is
  one of the five; a shaped type with an illegal element type is rewritten by
  converting its element type only, kind and shape kept, so a tensor of each of the five
  becomes the tensor of the matching integer; every other type is returned as it is.
  \<open>ToLegalType\<close> is idempotent, and its result is never an illegal type.
\<close>

theorem ToLegalType_legalizes:
  "ToLegalType Qint8Type = IntegerType 8 Signless \<and>
   ToLegalType Qint16Type = IntegerType 16 Signless \<and>
   ToLegalType Qint32Type = IntegerType 32 Signless \<and>
   ToLegalType Quint8Type = IntegerType 8 Unsigned \<and>
   ToLegalType Quint16Type = IntegerType 16 Unsigned \<and>
   IsIllegalType Qint8Type \<and> IsIllegalType Qint16Type \<and> IsIllegalType Qint32Type \<and>
   IsIllegalType Quint8Type \<and> IsIllegalType Quint16Type \<and>
   \<not> IsIllegalType (IntegerType w sg) \<and> \<not> IsIllegalType (OtherType n) \<and>
   IsIllegalType (ShapedType k shape elem) = IsIllegalElementType elem \<and>
   ToLegalType (ShapedType k shape Qint8Type) = ShapedType k shape (IntegerType 8 Signless) \<and>
   ToLegalType (ShapedType k shape Qint16Type) = ShapedType k shape (IntegerType 16 Signless) \<and>
   ToLegalType (ShapedType k shape Qint32Type) = ShapedType k shape (IntegerType 32 Signless) \<and>
   ToLegalType (ShapedType k shape Quint8Type) = ShapedType k shape (IntegerType 8 Unsigned) \<and>
   ToLegalType (ShapedType k shape Quint16Type) = ShapedType k shape (IntegerType 16 Unsigned) \<and>
   ToLegalType (ShapedType k shape (IntegerType w sg)) = ShapedType k shape (IntegerType w sg) \<and>
   ToLegalType (ShapedType k shape (OtherType n)) = ShapedType k shape (OtherType n) \<and>
   ToLegalType (ShapedType k shape elem) =
     ShapedType k shape (if IsIllegalType elem then ToLegalType elem else elem) \<and>
   ToLegalType (IntegerType w sg) = IntegerType w sg \<and>
   ToLegalType (OtherType n) = OtherType n \<and>
   ToLegalType (ToLegalType t) = ToLegalType t \<and>
   \<not> IsIllegalType (ToLegalType t)"
  using ToLegalType_shaped [of k shape elem] ToLegalType_idem [of t]
    IsIllegalType_ToLegalType [of t]
  by (simp add: IsIllegalType_def)

text \<open>
  C10 as stated fails on the signedness: the integer types that the signed quantized
  types are mapped to are signless, not signed.
\<close>

theorem ToLegalType_signless_counterexample:
  "ToLegalType Qint8Type \<noteq> IntegerType 8 Signed \<and>
   ToLegalType Qint16Type \<noteq> IntegerType 16 Signed \<and>
   ToLegalType Qint32Type \<noteq> IntegerType 32 Signed"
  by simp

section \<open>Properties of cuda\_graph.cc\<close>

subsection \<open>Logging a native call changes the log only\<close>

lemma cudaGetErrorString_native [simp]: "cudaGetErrorString (native c w) = cudaGetErrorString w"
  by (simp add: native_def)

lemma calls_native [simp]: "calls (native c w) = calls w @ [c]"
  by (simp add: native_def)

lemma vlog_level_native [simp]: "vlog_level (native c w) = vlog_level w"
  by (simp add: native_def)

lemma counters_native [simp]:
  "allocated_cuda_graph_execs (native c w) = allocated_cuda_graph_execs w"
  "alive_cuda_graph_execs (native c w) = alive_cuda_graph_execs w"
  by (simp_all add: native_def)

lemma capture_status_native [simp]: "capture_status (native c w) = capture_status w"
  by (simp add: native_def)

lemma VLOG_IS_ON_native [simp]: "VLOG_IS_ON n (native c w) = VLOG_IS_ON n w"
  by (simp add: VLOG_IS_ON_def)

subsection \<open>The registry\<close>

lemma NotifyGraphExecCreated_eq:
  "NotifyGraphExecCreated w =
     (allocated_cuda_graph_execs w,
      w\<lparr>alive_cuda_graph_execs := alive_cuda_graph_execs w + 1,
        allocated_cuda_graph_execs := allocated_cuda_graph_execs w + 1\<rparr>)"
  by (simp add: NotifyGraphExecCreated_def fetch_add_alive_def fetch_add_allocated_def Let_def)

lemma created_ids_eq:
  "created_ids n w = map (\<lambda>k. allocated_cuda_graph_execs w + of_nat k) [0..<n]"
proof (induction n arbitrary: w)
  case 0
  show ?case by simp
next
  case (Suc n)
  have "[0..<Suc n] = 0 # map Suc [0..<n]"
    by (simp add: upt_conv_Cons map_Suc_upt del: upt_Suc)
  then show ?case
    by (simp add: NotifyGraphExecCreated_eq Suc.IH add.assoc add.commute del: upt_Suc)
qed

lemma unat_add_of_nat:
  fixes a :: "64 word"
  assumes "unat a + k < 2 ^ 64"
  shows "unat (a + of_nat k) = unat a + k"
proof -
  from assms have k: "k < 2 ^ 64" by simp
  have "unat (a + of_nat k) = (unat a + k mod 2 ^ 64) mod 2 ^ 64"
    by (simp add: unat_word_ariths unat_of_nat)
  with assms k show ?thesis by simp
qed

lemma created_ids_increasing:
  assumes "unat (allocated_cuda_graph_execs w) + n \<le> 2 ^ 64"
  shows "sorted_wrt (<) (created_ids n w)"
proof -
  have "allocated_cuda_graph_execs w + of_nat i < allocated_cuda_graph_execs w + of_nat j"
    if "i < j" "j < n" for i j
  proof -
    from that assms have "unat (allocated_cuda_graph_execs w) + i < 2 ^ 64"
      and "unat (allocated_cuda_graph_execs w) + j < 2 ^ 64" by simp_all
    then have "unat (allocated_cuda_graph_execs w + of_nat i) =
        unat (allocated_cuda_graph_execs w) + i"
      and "unat (allocated_cuda_graph_execs w + of_nat j) =
        unat (allocated_cuda_graph_execs w) + j"
      by (simp_all add: unat_add_of_nat)
    with that show ?thesis by (simp add: word_less_nat_alt)
  qed
  then show ?thesis
    by (simp add: created_ids_eq sorted_wrt_map sorted_wrt_iff_nth_less)
qed

lemma created_ids_distinct:
  assumes "n \<le> 2 ^ 64"
  shows "distinct (created_ids n w)"
proof -
  have "inj_on (\<lambda>k. allocated_cuda_graph_execs w + (of_nat k :: 64 word)) {0..<n}"
  proof (rule inj_onI)
    fix i j assume i: "i \<in> {0..<n}" and j: "j \<in> {0..<n}"
      and eq: "allocated_cuda_graph_execs w + (of_nat i :: 64 word) =
        allocated_cuda_graph_execs w + of_nat j"
    from eq have "(of_nat i :: 64 word) = of_nat j" by simp
    then have "unat (of_nat i :: 64 word) = unat (of_nat j :: 64 word)" by simp
    then have "i mod 2 ^ 64 = j mod 2 ^ 64" by (simp add: unat_of_nat)
    moreover from i j assms have "i < 2 ^ 64" "j < 2 ^ 64" by simp_all
    ultimately show "i = j" by simp
  qed
  then show ?thesis by (simp add: created_ids_eq distinct_map)
qed

lemma created_ids_wrap:
  "\<not> distinct (created_ids (2 ^ 64 + 1) w)"
proof
  assume "distinct (created_ids (2 ^ 64 + 1) w)"
  then have inj: "inj_on (\<lambda>k. allocated_cuda_graph_execs w + (of_nat k :: 64 word))
      {0..<2 ^ 64 + 1}"
    by (simp add: created_ids_eq distinct_map del: upt_Suc)
  have "allocated_cuda_graph_execs w + (of_nat 0 :: 64 word) =
      allocated_cuda_graph_execs w + of_nat (2 ^ 64)"
    by simp
  with inj have "(0::nat) = 2 ^ 64"
    by (rule inj_onD) simp_all
  then show False by simp
qed

lemma no_lost_update_step:
  "no_lost_update a0 l0 c \<Longrightarrow> no_lost_update a0 l0 (step t c)"
  by (auto simp add: no_lost_update_def step_def atomic_def executed_def ids_def
      fetch_add_alive_def fetch_add_allocated_def fetch_sub_alive_def
      split: list.splits atomic_op.splits)

lemma no_lost_update_run:
  "no_lost_update a0 l0 c \<Longrightarrow> no_lost_update a0 l0 (run sched c)"
  by (induction sched arbitrary: c) (simp_all add: no_lost_update_step)

lemma no_lost_update_start:
  "history c = [] \<Longrightarrow>
   no_lost_update (allocated_cuda_graph_execs (shared c)) (alive_cuda_graph_execs (shared c)) c"
  by (simp add: no_lost_update_def executed_def ids_def)

lemma ids_run:
  assumes "history c = []"
  shows "ids (run sched c) = created_ids (executed FetchAddAllocated (run sched c)) (shared c)"
  using no_lost_update_run [OF no_lost_update_start [OF assms], of sched]
  by (simp add: no_lost_update_def created_ids_eq)

lemma sorted_ids_of:
  "sorted_wrt (<) (ids c) \<Longrightarrow> sorted_wrt (<) (ids_of t c)"
  unfolding ids_def ids_of_def sorted_wrt_map by (rule sorted_wrt_filter)

lemma distinct_ids_of:
  "distinct (ids c) \<Longrightarrow> distinct (ids_of t c)"
  unfolding ids_def ids_of_def by (rule distinct_map_filter)

lemma run_alone_Created:
  "pending c t = ops_of_call Created @ rest \<Longrightarrow>
   shared (run [t, t] c) = snd (NotifyGraphExecCreated (shared c)) \<and>
   history (run [t, t] c) =
     history c @ [(t, FetchAddAlive, alive_cuda_graph_execs (shared c)),
                  (t, FetchAddAllocated, fst (NotifyGraphExecCreated (shared c)))]"
  by (simp add: step_def atomic_def fetch_add_alive_def fetch_add_allocated_def
      NotifyGraphExecCreated_def Let_def)

lemma run_alone_Destroyed:
  "pending c t = ops_of_call Destroyed @ rest \<Longrightarrow>
   shared (run [t] c) = snd (NotifyGraphExecDestroyed (shared c)) \<and>
   history (run [t] c) =
     history c @ [(t, FetchSubAlive, fst (NotifyGraphExecDestroyed (shared c)) + 1)]"
  by (simp add: step_def atomic_def fetch_sub_alive_def NotifyGraphExecDestroyed_def)

lemma concurrent_registry:
  assumes "history c = []"
  shows "allocated_cuda_graph_execs (shared (run sched c)) =
           allocated_cuda_graph_execs (shared c) +
             of_nat (executed FetchAddAllocated (run sched c))"
    and "alive_cuda_graph_execs (shared (run sched c)) =
           alive_cuda_graph_execs (shared c) + of_nat (executed FetchAddAlive (run sched c)) -
             of_nat (executed FetchSubAlive (run sched c))"
    and "ids (run sched c) =
           map (\<lambda>k. allocated_cuda_graph_execs (shared c) + of_nat k)
             [0..<executed FetchAddAllocated (run sched c)]"
    and "executed FetchAddAllocated (run sched c) \<le> 2 ^ 64 \<Longrightarrow>
           distinct (ids (run sched c)) \<and> distinct (ids_of t (run sched c))"
    and "unat (allocated_cuda_graph_execs (shared c)) +
             executed FetchAddAllocated (run sched c) \<le> 2 ^ 64 \<Longrightarrow>
           sorted_wrt (<) (ids (run sched c)) \<and> sorted_wrt (<) (ids_of t (run sched c))"
proof -
  have inv: "no_lost_update (allocated_cuda_graph_execs (shared c))
      (alive_cuda_graph_execs (shared c)) (run sched c)"
    using assms by (intro no_lost_update_run no_lost_update_start)
  from inv show "allocated_cuda_graph_execs (shared (run sched c)) =
      allocated_cuda_graph_execs (shared c) +
        of_nat (executed FetchAddAllocated (run sched c))"
    by (simp add: no_lost_update_def)
  from inv show "alive_cuda_graph_execs (shared (run sched c)) =
      alive_cuda_graph_execs (shared c) + of_nat (executed FetchAddAlive (run sched c)) -
        of_nat (executed FetchSubAlive (run sched c))"
    by (simp add: no_lost_update_def)
  from inv show "ids (run sched c) =
      map (\<lambda>k. allocated_cuda_graph_execs (shared c) + of_nat k)
        [0..<executed FetchAddAllocated (run sched c)]"
    by (simp add: no_lost_update_def)
  show "distinct (ids (run sched c)) \<and> distinct (ids_of t (run sched c))"
    if "executed FetchAddAllocated (run sched c) \<le> 2 ^ 64"
    using that created_ids_distinct [of "executed FetchAddAllocated (run sched c)" "shared c"]
    by (simp add: ids_run [OF assms, symmetric] distinct_ids_of)
  show "sorted_wrt (<) (ids (run sched c)) \<and> sorted_wrt (<) (ids_of t (run sched c))"
    if "unat (allocated_cuda_graph_execs (shared c)) +
        executed FetchAddAllocated (run sched c) \<le> 2 ^ 64"
    using that created_ids_increasing [of "shared c" "executed FetchAddAllocated (run sched c)"]
    by (simp add: ids_run [OF assms, symmetric] sorted_ids_of)
qed

text \<open>
  C5, as amended. Run by one caller, \<open>NotifyGraphExecCreated\<close> adds 1 to \<open>alive\<close> and
  to \<open>allocated\<close> (in 64-bit arithmetic) and returns the value \<open>allocated\<close> had before,
  and \<open>NotifyGraphExecDestroyed\<close> subtracts 1 from \<open>alive\<close> and returns the value
  \<open>alive\<close> has afterwards; a thread that runs its call without interference does
  exactly that. Each increment and decrement is atomic: under every interleaving of the
  atomic operations of concurrent callers no update is lost, and the identities handed
  out are the successive values of \<open>allocated\<close>. So, for one caller or for many, up to
  \<open>2 ^ 64\<close> identities are pairwise distinct, and they are strictly increasing, in the
  order they are handed out and for each thread in its call order, as long as
  \<open>allocated\<close> does not wrap around.
\<close>

theorem registry_notifications:
  "NotifyGraphExecCreated w =
     (allocated_cuda_graph_execs w,
      w\<lparr>alive_cuda_graph_execs := alive_cuda_graph_execs w + 1,
        allocated_cuda_graph_execs := allocated_cuda_graph_execs w + 1\<rparr>) \<and>
   NotifyGraphExecDestroyed w =
     (alive_cuda_graph_execs w - 1,
      w\<lparr>alive_cuda_graph_execs := alive_cuda_graph_execs w - 1\<rparr>) \<and>
   fst (NotifyGraphExecDestroyed w) =
     alive_cuda_graph_execs (snd (NotifyGraphExecDestroyed w)) \<and>
   (n \<le> 2 ^ 64 \<longrightarrow> distinct (created_ids n w)) \<and>
   (unat (allocated_cuda_graph_execs w) + n \<le> 2 ^ 64 \<longrightarrow>
      sorted_wrt (<) (created_ids n w)) \<and>
   (pending c t = ops_of_call Created @ rest \<longrightarrow>
      shared (run [t, t] c) = snd (NotifyGraphExecCreated (shared c)) \<and>
      history (run [t, t] c) =
        history c @ [(t, FetchAddAlive, alive_cuda_graph_execs (shared c)),
                     (t, FetchAddAllocated, fst (NotifyGraphExecCreated (shared c)))]) \<and>
   (pending c t = ops_of_call Destroyed @ rest \<longrightarrow>
      shared (run [t] c) = snd (NotifyGraphExecDestroyed (shared c)) \<and>
      history (run [t] c) =
        history c @ [(t, FetchSubAlive, fst (NotifyGraphExecDestroyed (shared c)) + 1)]) \<and>
   (history c = [] \<longrightarrow>
      allocated_cuda_graph_execs (shared (run sched c)) =
        allocated_cuda_graph_execs (shared c) +
          of_nat (executed FetchAddAllocated (run sched c)) \<and>
      alive_cuda_graph_execs (shared (run sched c)) =
        alive_cuda_graph_execs (shared c) + of_nat (executed FetchAddAlive (run sched c)) -
          of_nat (executed FetchSubAlive (run sched c)) \<and>
      ids (run sched c) =
        map (\<lambda>k. allocated_cuda_graph_execs (shared c) + of_nat k)
          [0..<executed FetchAddAllocated (run sched c)] \<and>
      (executed FetchAddAllocated (run sched c) \<le> 2 ^ 64 \<longrightarrow>
         distinct (ids (run sched c)) \<and> distinct (ids_of t (run sched c))) \<and>
      (unat (allocated_cuda_graph_execs (shared c)) +
           executed FetchAddAllocated (run sched c) \<le> 2 ^ 64 \<longrightarrow>
         sorted_wrt (<) (ids (run sched c)) \<and> sorted_wrt (<) (ids_of t (run sched c))))"
proof -
  have seq: "NotifyGraphExecCreated w =
       (allocated_cuda_graph_execs w,
        w\<lparr>alive_cuda_graph_execs := alive_cuda_graph_execs w + 1,
          allocated_cuda_graph_execs := allocated_cuda_graph_execs w + 1\<rparr>) \<and>
     NotifyGraphExecDestroyed w =
       (alive_cuda_graph_execs w - 1,
        w\<lparr>alive_cuda_graph_execs := alive_cuda_graph_execs w - 1\<rparr>) \<and>
     fst (NotifyGraphExecDestroyed w) =
       alive_cuda_graph_execs (snd (NotifyGraphExecDestroyed w))"
    by (simp add: NotifyGraphExecCreated_eq NotifyGraphExecDestroyed_def fetch_sub_alive_def)
  have ids: "(n \<le> 2 ^ 64 \<longrightarrow> distinct (created_ids n w)) \<and>
     (unat (allocated_cuda_graph_execs w) + n \<le> 2 ^ 64 \<longrightarrow>
        sorted_wrt (<) (created_ids n w))"
    using created_ids_distinct [of n w] created_ids_increasing [of w n] by blast
  show ?thesis
    using seq ids run_alone_Created [of c t rest] run_alone_Destroyed [of c t rest]
      concurrent_registry(1-3) [of c sched] concurrent_registry(4-5) [of c sched t]
    by blast
qed

theorem registry_notifications_witness:
  "(3::nat) \<le> 2 ^ 64 \<and> unat (allocated_cuda_graph_execs (start 0)) + 3 \<le> 2 ^ 64 \<and>
   fst (NotifyGraphExecCreated (start 0)) = 0 \<and>
   fst (NotifyGraphExecDestroyed ((start 0)\<lparr>alive_cuda_graph_execs := 2\<rparr>)) = 1 \<and>
   distinct (created_ids 3 (start 0)) \<and> sorted_wrt (<) (created_ids 3 (start 0)) \<and>
   pending two_callers 0 = ops_of_call Created @ [FetchSubAlive] \<and>
   shared (run [0, 0] two_callers) = snd (NotifyGraphExecCreated (start 0)) \<and>
   pending (run [0, 0] two_callers) 0 = ops_of_call Destroyed @ [] \<and>
   shared (run [0] (run [0, 0] two_callers)) =
     snd (NotifyGraphExecDestroyed (shared (run [0, 0] two_callers))) \<and>
   history two_callers = [] \<and>
   history (run interleaved two_callers) =
     [(0, FetchAddAlive, 0), (1, FetchAddAlive, 1), (1, FetchAddAllocated, 0),
      (0, FetchAddAllocated, 1), (1, FetchSubAlive, 2), (0, FetchSubAlive, 1)] \<and>
   allocated_cuda_graph_execs (shared (run interleaved two_callers)) = 2 \<and>
   alive_cuda_graph_execs (shared (run interleaved two_callers)) = 0 \<and>
   ids (run interleaved two_callers) = [0, 1] \<and>
   distinct (ids (run interleaved two_callers)) \<and>
   sorted_wrt (<) (ids (run interleaved two_callers)) \<and>
   sorted_wrt (<) (ids_of 0 (run interleaved two_callers))"
proof -
  have h: "history (run interleaved two_callers) =
     [(0, FetchAddAlive, 0), (1, FetchAddAlive, 1), (1, FetchAddAllocated, 0),
      (0, FetchAddAllocated, 1), (1, FetchSubAlive, 2), (0, FetchSubAlive, 1)]"
    by (simp add: interleaved_def two_callers_def step_def atomic_def ops_of_def
        fetch_add_alive_def fetch_add_allocated_def fetch_sub_alive_def start_def)
  have e: "executed FetchAddAllocated (run interleaved two_callers) = Suc (Suc 0)"
    "executed FetchAddAlive (run interleaved two_callers) = Suc (Suc 0)"
    "executed FetchSubAlive (run interleaved two_callers) = Suc (Suc 0)"
    unfolding executed_def h by simp_all
  have s: "shared two_callers = start 0" "history two_callers = []"
    "pending two_callers 0 = ops_of_call Created @ [FetchSubAlive]"
    by (simp_all add: two_callers_def ops_of_def)
  have p: "pending (run [0, 0] two_callers) 0 = ops_of_call Destroyed @ []"
    by (simp add: two_callers_def step_def ops_of_def)
  show ?thesis
    using registry_notifications [of "start 0" 3 two_callers 0 "[FetchSubAlive]"
        "interleaved"]
      registry_notifications [of "(start 0)\<lparr>alive_cuda_graph_execs := 2\<rparr>" 3
        "run [0, 0] two_callers" 0 "[]" "[]"]
    by (simp add: h e s p start_def del: run.simps)
qed

text \<open>
  C5 as stated fails where the 64-bit counter wraps around: \<open>2 ^ 64 + 1\<close> calls in a
  row from the start of the process return an identity twice, and the call made when
  \<open>allocated\<close> is \<open>2 ^ 64 - 1\<close> returns a greater identity than the call after it.
\<close>

theorem created_ids_wrap_counterexample:
  "\<not> distinct (created_ids (2 ^ 64 + 1) (start 0)) \<and>
   \<not> fst (NotifyGraphExecCreated ((start 0)\<lparr>allocated_cuda_graph_execs := 2 ^ 64 - 1\<rparr>)) <
     fst (NotifyGraphExecCreated (snd (NotifyGraphExecCreated
       ((start 0)\<lparr>allocated_cuda_graph_execs := 2 ^ 64 - 1\<rparr>))))"
  using created_ids_wrap [of "start 0"]
  by (simp add: NotifyGraphExecCreated_eq start_def)

subsection \<open>Capture\<close>

text \<open>
  C8. When \<open>cudaStreamBeginCapture\<close> fails, \<open>CaptureCudaGraph\<close> returns an internal
  error with the text of the runtime's error and no graph handle; the begin-capture is
  the only native call it makes (the capture callback is not invoked, the end-capture is
  not attempted), and the capture status of every stream is as before.
\<close>

theorem CaptureCudaGraph_begin_failure:
  assumes "begin_err \<noteq> cudaSuccess"
  shows "fst (CaptureCudaGraph stream begin_err captured end_err graph left w) =
           Inl (InternalError (''stream begin capture failed: '' @ cudaGetErrorString w begin_err)) \<and>
         calls (snd (CaptureCudaGraph stream begin_err captured end_err graph left w)) =
           calls w @ [StreamBeginCapture stream] \<and>
         capture_status (snd (CaptureCudaGraph stream begin_err captured end_err graph left w)) =
           capture_status w"
  using assms by (simp add: CaptureCudaGraph_def begin_capture_def Let_def)

theorem CaptureCudaGraph_begin_failure_witness:
  "cudaErrorOther 1 \<noteq> cudaSuccess \<and>
   fst (CaptureCudaGraph 1 (cudaErrorOther 1) OkStatus cudaSuccess 5
          cudaStreamCaptureStatusNone (start 0)) =
     Inl (InternalError ''stream begin capture failed: unknown error'') \<and>
   calls (snd (CaptureCudaGraph 1 (cudaErrorOther 1) OkStatus cudaSuccess 5
          cudaStreamCaptureStatusNone (start 0))) = [StreamBeginCapture 1]"
  using CaptureCudaGraph_begin_failure [of "cudaErrorOther 1" 1 OkStatus cudaSuccess 5
      cudaStreamCaptureStatusNone "start 0"]
  by (simp add: start_def error_text_def)

text \<open>
  C1, as amended. When begin-capture succeeds and the capture callback fails,
  \<open>CaptureCudaGraph\<close> still makes the end-capture call, after the callback and before
  it looks at the callback's result, and returns an error, never a graph handle. If the
  end-capture succeeds, the stream is no longer capturing and the error is the
  callback's message wrapped as \<open>failed to capture CUDA graph: ...\<close>. If the
  end-capture fails as well, the error is the one of the end-capture, which is checked
  first, and the stream is in the status the runtime left it in.
\<close>

theorem CaptureCudaGraph_callback_failure:
  assumes "begin_err = cudaSuccess" and "\<not> ok captured"
  shows "calls (snd (CaptureCudaGraph stream begin_err captured end_err graph left w)) =
           calls w @ [StreamBeginCapture stream, CaptureCallback, StreamEndCapture stream] \<and>
         fst (CaptureCudaGraph stream begin_err captured end_err graph left w) =
           Inl (if end_err = cudaSuccess
                then InternalError (''failed to capture CUDA graph: '' @ message captured)
                else InternalError (''stream end capture failed: '' @ cudaGetErrorString w end_err)) \<and>
         capture_status (snd (CaptureCudaGraph stream begin_err captured end_err graph left w)) stream =
           (if end_err = cudaSuccess then cudaStreamCaptureStatusNone else left) \<and>
         fst (IsStreamCapturing stream cudaSuccess
                (snd (CaptureCudaGraph stream begin_err captured end_err graph left w))) =
           Inr (end_err \<noteq> cudaSuccess \<and> left = cudaStreamCaptureStatusActive)"
  using assms
  by (simp add: CaptureCudaGraph_def begin_capture_def end_capture_def IsStreamCapturing_def Let_def)

theorem CaptureCudaGraph_callback_failure_witness:
  "\<not> ok (Status kInternal ''boom'') \<and>
   calls (snd (CaptureCudaGraph 1 cudaSuccess (Status kInternal ''boom'') cudaSuccess 5
            cudaStreamCaptureStatusActive (start 0))) =
     [StreamBeginCapture 1, CaptureCallback, StreamEndCapture 1] \<and>
   fst (CaptureCudaGraph 1 cudaSuccess (Status kInternal ''boom'') cudaSuccess 5
          cudaStreamCaptureStatusActive (start 0)) =
     Inl (InternalError ''failed to capture CUDA graph: boom'') \<and>
   capture_status (snd (CaptureCudaGraph 1 cudaSuccess (Status kInternal ''boom'') cudaSuccess 5
          cudaStreamCaptureStatusActive (start 0))) 1 = cudaStreamCaptureStatusNone"
  using CaptureCudaGraph_callback_failure [of cudaSuccess "Status kInternal ''boom''" 1
      cudaSuccess 5 cudaStreamCaptureStatusActive "start 0"]
  by (simp add: ok_def start_def)

text \<open>
  C1 as stated fails: with a failing callback and a failing end-capture, the error
  returned is the end-capture's, not the callback's failure wrapped.
\<close>

theorem CaptureCudaGraph_end_failure_counterexample:
  "fst (CaptureCudaGraph 1 cudaSuccess (Status kInternal ''boom'') (cudaErrorOther 1) 0
          cudaStreamCaptureStatusActive (start 0)) =
     Inl (InternalError ''stream end capture failed: unknown error'') \<and>
   fst (CaptureCudaGraph 1 cudaSuccess (Status kInternal ''boom'') (cudaErrorOther 1) 0
          cudaStreamCaptureStatusActive (start 0)) \<noteq>
     Inl (InternalError ''failed to capture CUDA graph: boom'')"
  by (simp add: CaptureCudaGraph_def begin_capture_def end_capture_def Let_def ok_def
      start_def error_text_def InternalError_def native_def)

subsection \<open>Launch and update\<close>

lemma Launch_status:
  "fst (Launch e stream err w) =
     (if err = cudaSuccess then OkStatus
      else InternalError (''failed to run cuda graph: '' @ cudaGetErrorString w err))"
  by (simp add: Launch_def Let_def)

lemma Launch_handle:
  "fst (snd (Launch e stream err w)) =
     (if VLOG_IS_ON 3 w then e\<lparr>num_launches := num_launches e + 1\<rparr> else e)"
  by (simp add: Launch_def Let_def)

lemma Launch_world:
  "snd (snd (Launch e stream err w)) = native (GraphLaunch (exec_get e) stream) w"
  by (simp add: Launch_def Let_def)

lemma Launches_logged:
  "VLOG_IS_ON 3 w \<Longrightarrow>
   num_launches (fst (Launches e stream errs w)) = num_launches e + of_nat (length errs)"
proof (induction errs arbitrary: e w)
  case Nil
  then show ?case by simp
next
  case (Cons err errs)
  obtain st e1 w1 where L: "Launch e stream err w = (st, e1, w1)"
    by (cases "Launch e stream err w") auto
  from L have e1: "e1 = fst (snd (Launch e stream err w))"
    and w1: "w1 = snd (snd (Launch e stream err w))" by simp_all
  from w1 Cons.prems have "VLOG_IS_ON 3 w1" by (simp add: Launch_world)
  then have "num_launches (fst (Launches e1 stream errs w1)) =
      num_launches e1 + of_nat (length errs)" by (rule Cons.IH)
  moreover from e1 Cons.prems have "num_launches e1 = num_launches e + 1"
    by (simp add: Launch_handle)
  ultimately show ?case using L by (simp add: add.assoc add.commute)
qed

text \<open>
  C2, as amended. \<open>Launch\<close> returns an internal error when the native launch fails and
  OK when it succeeds. With \<open>VLOG(3)\<close> on, every call increments the launch counter of
  the handle by exactly 1, before the native launch and whether it then succeeds or
  fails; so after 3 launches on a fresh handle, whatever their outcomes, the counter
  reads 3.
\<close>

theorem Launch_counts_every_logged_call:
  "fst (Launch e stream err w) =
     (if err = cudaSuccess then OkStatus
      else InternalError (''failed to run cuda graph: '' @ cudaGetErrorString w err)) \<and>
   code (fst (Launch e stream err w)) = (if err = cudaSuccess then kOk else kInternal) \<and>
   (VLOG_IS_ON 3 w \<longrightarrow>
      num_launches (fst (snd (Launch e stream err w))) = num_launches e + 1 \<and>
      num_launches (fst (Launches (new_OwnedCudaGraphExec i exec) stream [err1, err2, err3] w)) = 3)"
  using Launches_logged [of w "new_OwnedCudaGraphExec i exec" stream "[err1, err2, err3]"]
  by (simp add: Launch_status Launch_handle OkStatus_def InternalError_def
      new_OwnedCudaGraphExec_def del: Launches.simps)

theorem Launch_counts_every_logged_call_witness:
  "VLOG_IS_ON 3 (start 3) \<and>
   fst (Launch (new_OwnedCudaGraphExec 0 9) 1 (cudaErrorOther 1) (start 3)) =
     InternalError ''failed to run cuda graph: unknown error'' \<and>
   num_launches (fst (snd (Launch (new_OwnedCudaGraphExec 0 9) 1 (cudaErrorOther 1) (start 3)))) = 1 \<and>
   num_launches (fst (Launches (new_OwnedCudaGraphExec 0 9) 1
     [cudaSuccess, cudaSuccess, cudaSuccess] (start 3))) = 3"
  using Launch_counts_every_logged_call [of "new_OwnedCudaGraphExec 0 9" 1 "cudaErrorOther 1"
      "start 3" 0 9 cudaSuccess cudaSuccess cudaSuccess]
  by (simp add: VLOG_IS_ON_def start_def error_text_def new_OwnedCudaGraphExec_def
      del: Launches.simps)

text \<open>
  C2 as stated fails twice: at the default verbosity a successful launch leaves the
  counter as it is, and with \<open>VLOG(3)\<close> on a failed launch increments it.
\<close>

theorem Launch_counter_counterexample:
  "num_launches (fst (snd (Launch (new_OwnedCudaGraphExec 0 9) 1 cudaSuccess (start 0)))) \<noteq>
     num_launches (new_OwnedCudaGraphExec 0 9) + 1 \<and>
   code (fst (Launch (new_OwnedCudaGraphExec 0 9) 1 (cudaErrorOther 1) (start 3))) = kInternal \<and>
   num_launches (fst (snd (Launch (new_OwnedCudaGraphExec 0 9) 1 (cudaErrorOther 1) (start 3)))) \<noteq>
     num_launches (new_OwnedCudaGraphExec 0 9)"
  by (simp add: Launch_def Let_def VLOG_IS_ON_def start_def new_OwnedCudaGraphExec_def
      InternalError_def)

lemma at_return_eq:
  "at_return graph destroy_err r =
     (if graph_get graph = 0 then Inr r
      else if destroy_err = cudaSuccess
      then Inr (fst r, native (GraphDestroy (graph_get graph)) (snd r))
      else Inl (CheckFailed
             (''Failed to destroy CUDA graph: '' @ cudaGetErrorString (snd r) destroy_err)))"
  by (simp add: at_return_def destroy_OwnedCudaGraph_def DestroyGraph_def Let_def)

lemma Update_eq:
  "Update e graph err updated destroy_err w =
     at_return graph destroy_err
       ((if err = cudaSuccess \<and> updated = cudaGraphExecUpdateSuccess then OkStatus
         else InternalError
           ((if 12000 \<le> CUDA_VERSION w then ''failed to update cuda graph: ''
             else ''Failed to update cuda graph '') @ cudaGetErrorString w err),
         if VLOG_IS_ON 3 w then e\<lparr>num_updates := num_updates e + 1, num_launches := 0\<rparr>
         else e\<lparr>num_launches := 0\<rparr>),
        native (GraphExecUpdate (exec_get e) (graph_get graph)) w)"
  by (simp add: Update_def Let_def)

text \<open>
  C3, as amended. \<open>Update\<close> consumes the graph handle: when the release of a non-empty
  graph handle fails at the return, the process aborts and no status is returned. In
  every other case \<open>Update\<close> returns OK when the native update succeeds with the result
  \<open>cudaGraphExecUpdateSuccess\<close> and an internal error (never a resource-exhausted
  one) otherwise; the launch counter is reset to 0, before the native update and
  whatever its outcome; and with \<open>VLOG(3)\<close> on the update counter is incremented by
  exactly 1, also whatever the outcome.
\<close>

theorem Update_resets_before_native_call:
  "(graph_get graph \<noteq> 0 \<and> destroy_err \<noteq> cudaSuccess \<longrightarrow>
      Update e graph err updated destroy_err w =
        Inl (CheckFailed (''Failed to destroy CUDA graph: '' @ cudaGetErrorString w destroy_err))) \<and>
   (graph_get graph = 0 \<or> destroy_err = cudaSuccess \<longrightarrow>
      \<not> isl (Update e graph err updated destroy_err w) \<and>
      code (fst (fst (projr (Update e graph err updated destroy_err w)))) =
        (if err = cudaSuccess \<and> updated = cudaGraphExecUpdateSuccess then kOk else kInternal) \<and>
      kInternal \<noteq> kResourceExhausted \<and>
      num_launches (snd (fst (projr (Update e graph err updated destroy_err w)))) = 0 \<and>
      calls (snd (projr (Update e graph err updated destroy_err w))) =
        calls w @ GraphExecUpdate (exec_get e) (graph_get graph) #
          (if graph_get graph = 0 then [] else [GraphDestroy (graph_get graph)]) \<and>
      (VLOG_IS_ON 3 w \<longrightarrow>
         num_updates (snd (fst (projr (Update e graph err updated destroy_err w)))) =
           num_updates e + 1))"
  by (auto simp add: Update_eq at_return_eq OkStatus_def InternalError_def)

theorem Update_resets_before_native_call_witness:
  "VLOG_IS_ON 3 (start 3) \<and> graph_get (OwnedCudaGraph 4) \<noteq> 0 \<and>
   cudaErrorOther 1 \<noteq> cudaSuccess \<and>
   Update (new_OwnedCudaGraphExec 0 9\<lparr>num_launches := 5\<rparr>) (OwnedCudaGraph 4)
     cudaSuccess cudaGraphExecUpdateSuccess (cudaErrorOther 1) (start 3) =
     Inl (CheckFailed ''Failed to destroy CUDA graph: unknown error'') \<and>
   code (fst (fst (projr (Update (new_OwnedCudaGraphExec 0 9\<lparr>num_launches := 5\<rparr>)
     (OwnedCudaGraph 4) cudaSuccess cudaGraphExecUpdateSuccess cudaSuccess (start 3))))) = kOk \<and>
   num_launches (snd (fst (projr (Update (new_OwnedCudaGraphExec 0 9\<lparr>num_launches := 5\<rparr>)
     (OwnedCudaGraph 4) cudaSuccess cudaGraphExecUpdateSuccess cudaSuccess (start 3))))) = 0 \<and>
   num_updates (snd (fst (projr (Update (new_OwnedCudaGraphExec 0 9\<lparr>num_launches := 5\<rparr>)
     (OwnedCudaGraph 4) cudaSuccess cudaGraphExecUpdateSuccess cudaSuccess (start 3))))) = 1 \<and>
   calls (snd (projr (Update (new_OwnedCudaGraphExec 0 9\<lparr>num_launches := 5\<rparr>)
     (OwnedCudaGraph 4) cudaSuccess cudaGraphExecUpdateSuccess cudaSuccess (start 3)))) =
     [GraphExecUpdate 9 4, GraphDestroy 4]"
  using Update_resets_before_native_call [of "OwnedCudaGraph 4" "cudaErrorOther 1"
      "new_OwnedCudaGraphExec 0 9\<lparr>num_launches := 5\<rparr>" cudaSuccess
      cudaGraphExecUpdateSuccess "start 3"]
    Update_resets_before_native_call [of "OwnedCudaGraph 4" cudaSuccess
      "new_OwnedCudaGraphExec 0 9\<lparr>num_launches := 5\<rparr>" cudaSuccess
      cudaGraphExecUpdateSuccess "start 3"]
  by (simp add: VLOG_IS_ON_def start_def error_text_def new_OwnedCudaGraphExec_def)

text \<open>
  C3 as stated fails: a failed update of a handle with launch counter 5 returns with
  the counter reset to 0; at the default verbosity a successful update leaves the
  update counter as it is; and when the release of the consumed graph fails, the call
  aborts the process instead of returning a status.
\<close>

theorem Update_counters_counterexample:
  "code (fst (fst (projr (Update (new_OwnedCudaGraphExec 0 9\<lparr>num_launches := 5\<rparr>)
     (OwnedCudaGraph 4) (cudaErrorOther 1) (cudaGraphExecUpdateError 1) cudaSuccess
     (start 0))))) = kInternal \<and>
   num_launches (snd (fst (projr (Update (new_OwnedCudaGraphExec 0 9\<lparr>num_launches := 5\<rparr>)
     (OwnedCudaGraph 4) (cudaErrorOther 1) (cudaGraphExecUpdateError 1) cudaSuccess
     (start 0))))) \<noteq> num_launches (new_OwnedCudaGraphExec 0 9\<lparr>num_launches := 5\<rparr>) \<and>
   num_updates (snd (fst (projr (Update (new_OwnedCudaGraphExec 0 9\<lparr>num_launches := 5\<rparr>)
     (OwnedCudaGraph 4) cudaSuccess cudaGraphExecUpdateSuccess cudaSuccess (start 0))))) \<noteq>
     num_updates (new_OwnedCudaGraphExec 0 9\<lparr>num_launches := 5\<rparr>) + 1 \<and>
   Update (new_OwnedCudaGraphExec 0 9\<lparr>num_launches := 5\<rparr>) (OwnedCudaGraph 4)
     (cudaErrorOther 1) (cudaGraphExecUpdateError 1) (cudaErrorOther 1) (start 0) =
     Inl (CheckFailed ''Failed to destroy CUDA graph: unknown error'')"
  by (simp add: Update_def at_return_def destroy_OwnedCudaGraph_def DestroyGraph_def Let_def
      VLOG_IS_ON_def start_def error_text_def new_OwnedCudaGraphExec_def InternalError_def
      native_def)

subsection \<open>Instantiation\<close>

text \<open>
  C4, as amended. \<open>InstantiateCudaGraph\<close> consumes the graph handle: when
  \<open>cudaGraphInstantiate\<close> fails and the release of a non-empty graph handle fails at
  the return, the process aborts and no error is returned. In every other case of a
  failing \<open>cudaGraphInstantiate\<close> the call returns an error and no executable handle:
  a resource-exhausted error when the failure is \<open>cudaErrorMemoryAllocation\<close>, an
  internal error for every other failure, so the code of the status tells the two
  apart; and the two counters of the registry are as before.
\<close>

theorem InstantiateCudaGraph_failure:
  assumes "err \<noteq> cudaSuccess"
  shows "(graph_get graph \<noteq> 0 \<and> destroy_err \<noteq> cudaSuccess \<longrightarrow>
            InstantiateCudaGraph graph err exec last_err destroy_err w =
              Inl (CheckFailed
                (''Failed to destroy CUDA graph: '' @ cudaGetErrorString w destroy_err))) \<and>
         (graph_get graph = 0 \<or> destroy_err = cudaSuccess \<longrightarrow>
            \<not> isl (InstantiateCudaGraph graph err exec last_err destroy_err w) \<and>
            fst (projr (InstantiateCudaGraph graph err exec last_err destroy_err w)) =
              Inl (if err = cudaErrorMemoryAllocation
                   then ResourceExhaustedError
                          (''graph instantiation failed: '' @ cudaGetErrorString w last_err)
                   else InternalError
                          (''graph instantiation failed: '' @ cudaGetErrorString w err)) \<and>
            code (projl (fst (projr
                (InstantiateCudaGraph graph err exec last_err destroy_err w)))) =
              (if err = cudaErrorMemoryAllocation then kResourceExhausted else kInternal) \<and>
            kResourceExhausted \<noteq> kInternal \<and>
            allocated_cuda_graph_execs
                (snd (projr (InstantiateCudaGraph graph err exec last_err destroy_err w))) =
              allocated_cuda_graph_execs w \<and>
            alive_cuda_graph_execs
                (snd (projr (InstantiateCudaGraph graph err exec last_err destroy_err w))) =
              alive_cuda_graph_execs w)"
  using assms
  by (simp add: InstantiateCudaGraph_def at_return_eq Let_def ResourceExhaustedError_def
      InternalError_def)

theorem InstantiateCudaGraph_failure_witness:
  "cudaErrorMemoryAllocation \<noteq> cudaSuccess \<and> cudaErrorOther 1 \<noteq> cudaSuccess \<and>
   graph_get (OwnedCudaGraph 4) \<noteq> 0 \<and>
   fst (projr (InstantiateCudaGraph (OwnedCudaGraph 4) cudaErrorMemoryAllocation 0
          cudaErrorMemoryAllocation cudaSuccess (start 0))) =
     Inl (ResourceExhaustedError ''graph instantiation failed: out of memory'') \<and>
   fst (projr (InstantiateCudaGraph (OwnedCudaGraph 4) (cudaErrorOther 1) 0 cudaSuccess
          cudaSuccess (start 0))) =
     Inl (InternalError ''graph instantiation failed: unknown error'') \<and>
   alive_cuda_graph_execs (snd (projr (InstantiateCudaGraph (OwnedCudaGraph 4)
     cudaErrorMemoryAllocation 0 cudaErrorMemoryAllocation cudaSuccess (start 0)))) = 0 \<and>
   allocated_cuda_graph_execs (snd (projr (InstantiateCudaGraph (OwnedCudaGraph 4)
     (cudaErrorOther 1) 0 cudaSuccess cudaSuccess (start 0)))) = 0 \<and>
   InstantiateCudaGraph (OwnedCudaGraph 4) (cudaErrorOther 1) 0 cudaSuccess (cudaErrorOther 2)
       (start 0) =
     Inl (CheckFailed ''Failed to destroy CUDA graph: unknown error'')"
  using InstantiateCudaGraph_failure [of cudaErrorMemoryAllocation "OwnedCudaGraph 4"
      cudaSuccess 0 cudaErrorMemoryAllocation "start 0"]
    InstantiateCudaGraph_failure [of "cudaErrorOther 1" "OwnedCudaGraph 4" cudaSuccess 0
      cudaSuccess "start 0"]
    InstantiateCudaGraph_failure [of "cudaErrorOther 1" "OwnedCudaGraph 4" "cudaErrorOther 2" 0
      cudaSuccess "start 0"]
  by (simp add: start_def error_text_def)

text \<open>
  C4 as stated fails: when the allocation failure of \<open>cudaGraphInstantiate\<close> is followed
  by a failing release of the consumed graph, the call aborts the process and returns
  no resource-exhausted error.
\<close>

theorem InstantiateCudaGraph_abort_counterexample:
  "InstantiateCudaGraph (OwnedCudaGraph 4) cudaErrorMemoryAllocation 0
       cudaErrorMemoryAllocation (cudaErrorOther 1) (start 0) =
     Inl (CheckFailed ''Failed to destroy CUDA graph: unknown error'') \<and>
   isl (InstantiateCudaGraph (OwnedCudaGraph 4) cudaErrorMemoryAllocation 0
       cudaErrorMemoryAllocation (cudaErrorOther 1) (start 0))"
  by (simp add: InstantiateCudaGraph_def at_return_def destroy_OwnedCudaGraph_def
      DestroyGraph_def Let_def start_def error_text_def native_def)

subsection \<open>Release of the native resources\<close>

text \<open>
  C9. When the native destroy of a graph or of an executable graph fails, the release
  action aborts the process through a failed \<open>CHECK\<close> whose message carries the
  runtime's text for the error; so does the destruction of every non-empty handle. The
  failure is never passed over.
\<close>

theorem destroy_failure_aborts:
  assumes "err \<noteq> cudaSuccess"
  shows "DestroyGraph graph err w =
           Inl (CheckFailed (''Failed to destroy CUDA graph: '' @ cudaGetErrorString w err)) \<and>
         DestroyGraphExec instance err w =
           Inl (CheckFailed (''Failed to destroy CUDA graph instance: '' @ cudaGetErrorString w err)) \<and>
         (graph_get g \<noteq> 0 \<longrightarrow> destroy_OwnedCudaGraph g err w =
           Inl (CheckFailed (''Failed to destroy CUDA graph: '' @ cudaGetErrorString w err))) \<and>
         (exec_get e \<noteq> 0 \<longrightarrow> destroy_OwnedCudaGraphExec e err w =
           Inl (CheckFailed (''Failed to destroy CUDA graph instance: '' @ cudaGetErrorString w err)))"
  using assms
  by (simp add: DestroyGraph_def DestroyGraphExec_def destroy_OwnedCudaGraph_def
      destroy_OwnedCudaGraphExec_def Let_def NotifyGraphExecDestroyed_def fetch_sub_alive_def)

theorem destroy_failure_aborts_witness:
  "cudaErrorOther 1 \<noteq> cudaSuccess \<and> graph_get (OwnedCudaGraph 4) \<noteq> 0 \<and>
   exec_get (new_OwnedCudaGraphExec 0 9) \<noteq> 0 \<and>
   DestroyGraph 4 (cudaErrorOther 1) (start 0) =
     Inl (CheckFailed ''Failed to destroy CUDA graph: unknown error'') \<and>
   DestroyGraphExec 9 (cudaErrorOther 1) (start 0) =
     Inl (CheckFailed ''Failed to destroy CUDA graph instance: unknown error'') \<and>
   destroy_OwnedCudaGraph (OwnedCudaGraph 4) (cudaErrorOther 1) (start 0) =
     Inl (CheckFailed ''Failed to destroy CUDA graph: unknown error'') \<and>
   destroy_OwnedCudaGraphExec (new_OwnedCudaGraphExec 0 9) (cudaErrorOther 1) (start 0) =
     Inl (CheckFailed ''Failed to destroy CUDA graph instance: unknown error'')"
  using destroy_failure_aborts [of "cudaErrorOther 1" 4 "start 0" 9 "OwnedCudaGraph 4"
      "new_OwnedCudaGraphExec 0 9"]
  by (simp add: start_def error_text_def new_OwnedCudaGraphExec_def)

lemma destroy_moved_from_graph: "destroy_OwnedCudaGraph moved_from_graph err w = Inr w"
  by (simp add: destroy_OwnedCudaGraph_def moved_from_graph_def)

lemma destroy_moved_from_exec: "destroy_OwnedCudaGraphExec (moved_from_exec e) err w = Inr w"
  by (simp add: destroy_OwnedCudaGraphExec_def moved_from_exec_def)

lemma destroy_exec_logged:
  "exec_get e \<noteq> 0 \<Longrightarrow> VLOG_IS_ON 5 w \<Longrightarrow>
   destroy_OwnedCudaGraphExec e cudaSuccess w =
     Inr (native (GraphExecDestroy (exec_get e)) (snd (NotifyGraphExecDestroyed w)))"
  by (simp add: destroy_OwnedCudaGraphExec_def DestroyGraphExec_def Let_def)

lemma destroy_exec_unlogged:
  "exec_get e \<noteq> 0 \<Longrightarrow> \<not> VLOG_IS_ON 5 w \<Longrightarrow>
   destroy_OwnedCudaGraphExec e cudaSuccess w = Inr (native (GraphExecDestroy (exec_get e)) w)"
  by (simp add: destroy_OwnedCudaGraphExec_def DestroyGraphExec_def Let_def)

text \<open>
  C7, at the failing input. At the default verbosity, destroying a non-empty executable
  handle releases the native executable and leaves the \<open>alive\<close> counter at 1:
  \<open>NotifyGraphExecDestroyed\<close> is not called.
\<close>

theorem destructor_without_logging_skips_notify:
  "exec_get (new_OwnedCudaGraphExec 0 9) \<noteq> 0 \<and>
   destroy_OwnedCudaGraphExec (new_OwnedCudaGraphExec 0 9) cudaSuccess
       ((start 0)\<lparr>allocated_cuda_graph_execs := 1, alive_cuda_graph_execs := 1\<rparr>) =
     Inr ((start 0)\<lparr>allocated_cuda_graph_execs := 1, alive_cuda_graph_execs := 1,
                    calls := [GraphExecDestroy 9]\<rparr>)"
  by (simp add: destroy_OwnedCudaGraphExec_def DestroyGraphExec_def Let_def VLOG_IS_ON_def
      start_def new_OwnedCudaGraphExec_def native_def)

text \<open>
  C6, at the failing input. At the default verbosity, one successful instantiation
  followed by the destruction of the handle it returned leaves \<open>allocated\<close> at 1 and
  \<open>alive\<close> at 1, not at 0.
\<close>

theorem alive_count_after_unlogged_destruction:
  "InstantiateCudaGraph (OwnedCudaGraph 4) cudaSuccess 9 cudaSuccess cudaSuccess (start 0) =
     Inr (Inr (new_OwnedCudaGraphExec 0 9),
          (start 0)\<lparr>allocated_cuda_graph_execs := 1, alive_cuda_graph_execs := 1,
                    calls := [GraphInstantiate 4, GraphDestroy 4]\<rparr>) \<and>
   destroy_OwnedCudaGraphExec (new_OwnedCudaGraphExec 0 9) cudaSuccess
       ((start 0)\<lparr>allocated_cuda_graph_execs := 1, alive_cuda_graph_execs := 1,
                  calls := [GraphInstantiate 4, GraphDestroy 4]\<rparr>) =
     Inr ((start 0)\<lparr>allocated_cuda_graph_execs := 1, alive_cuda_graph_execs := 1,
                    calls := [GraphInstantiate 4, GraphDestroy 4, GraphExecDestroy 9]\<rparr>)"
  by (simp add: InstantiateCudaGraph_def NotifyGraphExecCreated_def fetch_add_alive_def fetch_add_allocated_def at_return_def
      destroy_OwnedCudaGraph_def DestroyGraph_def
      destroy_OwnedCudaGraphExec_def DestroyGraphExec_def Let_def VLOG_IS_ON_def
      start_def new_OwnedCudaGraphExec_def native_def)

end
